theory Spec2Isabelle
  imports Main "HOL-Library.Word"
begin

section \<open>Data model of main.go\<close>

text \<open>
  The program is one Go file. Everything it does beyond computing values is a call into
  a library (encoding/json, net/http, log, client-go). The model records those calls, in
  the order the code makes them, as a trace; what a library call answers (a parse error,
  a network failure, a response) is read from an environment record, so that every
  error branch of the source is a branch of the model.
\<close>

type_synonym error = string

text \<open>Go's \<open>int\<close> on the build target (GOARCH=arm64) and \<open>time.Duration\<close> (an int64).\<close>

type_synonym go_int = "64 word"
type_synonym Duration = "64 word"

text \<open>
  Modelled from the spec: \<open>v1.Event\<close> is declared in k8s.io/api, outside the repository.
  The spec's WatchedResource gives it an identity (namespace and name), a consistency
  marker and an opaque payload body.
\<close>

record Event =
  Namespace :: string
  Name :: string
  ResourceVersion :: string
  Payload :: string

text \<open>
  A Go \<open>interface{}\<close> value as the handlers see it: the nil interface, a \<open>*v1.Event\<close>
  (a pointer, which may itself be nil), or a value of some other dynamic type, named by
  that type.
\<close>

datatype obj = NilInterface | EventPtr "Event option" | OtherValue string

text \<open>The struct \<open>DomeosEvent\<close> (main.go, lines 216 to 224).\<close>

record DomeosEvent =
  K8sEvent :: Event
  ClusterId :: go_int
  ClusterApi :: string
  Type :: string

text \<open>The flag variables (main.go, lines 43 to 61), read through pointers by the code.\<close>

record flagValues =
  inCluster :: bool
  apiserver :: string
  token :: string
  kubeconfig :: string
  helpFlag :: bool
  port :: go_int
  clusterId :: go_int
  domeosServer :: string

text \<open>A JSON document, as encoding/json writes one for a struct.\<close>

datatype json = JNull | JNumber int | JString string | JObject "(string \<times> json) list"

text \<open>net/http: a request, a response and the response's body reader.\<close>

record Request =
  Method :: string
  URL :: string
  Header :: "(string \<times> string list) list"
  ReqBody :: json

record ReadCloser =
  content :: string
  readError :: "error option"

record Response =
  StatusCode :: int
  Body :: ReadCloser

text \<open>net/rest and client-go: a client configuration and the client made from it.\<close>

record Config =
  Host :: string
  BearerToken :: string
  Insecure :: bool

datatype clientset = Clientset Config

text \<open>
  What \<open>cache.NewListWatchFromClient\<close> is given (main.go, line 257): the client, the
  resource, the namespace (\<open>v1.NamespaceAll\<close> is the empty string) and the field
  selector (\<open>fields.Everything()\<close> selects with the empty string).
\<close>

record ListWatch =
  Client :: clientset
  Resource :: string
  ListNamespace :: string
  FieldSelector :: string

text \<open>
  What the libraries answer during one call of \<open>reportEvent\<close>: whether the payload
  serialises, whether the destination address parses as a URL, and what
  \<open>http.DefaultClient.Do\<close> returns for a request. One call of the client is one attempt
  of the program; what the client does on the wire to answer it is inside that call.
\<close>

record env =
  marshalEvent :: "Event \<Rightarrow> error + json"
  urlParse :: "string \<Rightarrow> error + string"
  clientDo :: "Request \<Rightarrow> error + Response"

text \<open>
  What the libraries answer during startup: the two sources of a client configuration,
  the client constructor, the version request, and the HTTP listener, which either serves
  for ever (\<open>None\<close>) or returns its error.
\<close>

record startup =
  inClusterConfig :: "error + Config"
  defaultClientConfig :: "error + Config"
  newForConfig :: "Config \<Rightarrow> error + clientset"
  serverVersion :: "clientset \<Rightarrow> error + string"
  listenAndServe :: "string \<Rightarrow> error option"

text \<open>
  The library calls the program makes. \<open>LogFatal\<close> is the printing half of
  \<open>log.Fatal\<close>; its exit is in the outcome.
\<close>

datatype call =
    JsonMarshal DomeosEvent
  | LogPrintln "string list"
  | LogPrintf string "string list"
  | LogFatal "string list"
  | HttpNewRequest string string json
  | ClientDo Request
  | ReadAll ReadCloser
  | BodyClose ReadCloser
  | PrintUsage
  | StartReaper
  | InClusterConfig
  | DefaultClientConfig
  | NewForConfig Config
  | ServerVersion clientset
  | GoInformerRun ListWatch Duration
  | HandleFunc string
  | ListenAndServe string

text \<open>
  How a Go function ends: it returns or it panics; and how the process ends: it exits
  with a status, or it stays in the HTTP listener.
\<close>

datatype outcome = Returned | Panicked string | Exited int | Serving

type_synonym result = "call list \<times> outcome"

section \<open>The delivery sink\<close>

text \<open>
  \<open>json.Marshal\<close> on a \<open>DomeosEvent\<close>: one object whose members are the struct's
  fields, in declaration order, under the names of their \<open>json\<close> tags; it fails when a
  field fails to serialise.
\<close>

definition json_Marshal :: "env \<Rightarrow> DomeosEvent \<Rightarrow> error + json" where
  "json_Marshal e de =
     (case marshalEvent e (K8sEvent de) of
        Inl err \<Rightarrow> Inl err
      | Inr payload \<Rightarrow>
          Inr (JObject [(''k8sEvent'', payload),
                        (''clusterId'', JNumber (sint (ClusterId de))),
                        (''clusterApi'', JString (ClusterApi de)),
                        (''eventType'', JString (Type de))]))"

text \<open>
  \<open>http.NewRequest\<close>: fails when the address does not parse, otherwise a request with
  the method, the parsed address, no header and the body.
\<close>

definition http_NewRequest :: "env \<Rightarrow> string \<Rightarrow> string \<Rightarrow> json \<Rightarrow> error + Request" where
  "http_NewRequest e m u b =
     (case urlParse e u of
        Inl err \<Rightarrow> Inl err
      | Inr u' \<Rightarrow> Inr \<lparr>Method = m, URL = u', Header = [], ReqBody = b\<rparr>)"

text \<open>\<open>Header.Set\<close>: the key's values are replaced by the one value.\<close>

definition Header_Set :: "string \<Rightarrow> string \<Rightarrow> Request \<Rightarrow> Request" where
  "Header_Set k v r = r\<lparr>Header := (k, [v]) # filter (\<lambda>p. fst p \<noteq> k) (Header r)\<rparr>"

text \<open>\<open>ioutil.ReadAll\<close>: only the error is looked at by the caller.\<close>

definition ioutil_ReadAll :: "ReadCloser \<Rightarrow> error option" where
  "ioutil_ReadAll b = readError b"

text \<open>
  \<open>reportEvent\<close> (main.go, lines 226 to 251). The deferred \<open>Body.Close\<close> runs last.
\<close>

definition reportEvent :: "env \<Rightarrow> string \<Rightarrow> DomeosEvent \<Rightarrow> result" where
  "reportEvent e url de =
     (case json_Marshal e de of
        Inl err \<Rightarrow>
          ([JsonMarshal de, LogPrintln [''marshal DomeosEvent error: '', err]], Returned)
      | Inr eventstr \<Rightarrow>
          (case http_NewRequest e ''POST'' url eventstr of
             Inl err \<Rightarrow>
               ([JsonMarshal de, HttpNewRequest ''POST'' url eventstr,
                 LogPrintln [''create request error: %v'', err]], Returned)
           | Inr request0 \<Rightarrow>
               (let request = Header_Set ''Content-Type'' ''application/json;charset=UTF-8'' request0
                in case clientDo e request of
                     Inl err \<Rightarrow>
                       ([JsonMarshal de, HttpNewRequest ''POST'' url eventstr, ClientDo request,
                         LogPrintln [''get response error, %v'', err]], Returned)
                   | Inr resp \<Rightarrow>
                       (case ioutil_ReadAll (Body resp) of
                          Some err \<Rightarrow>
                            ([JsonMarshal de, HttpNewRequest ''POST'' url eventstr,
                              ClientDo request, ReadAll (Body resp),
                              LogPrintln [''http.Do failed,[err=%s][url=%s]'', err, url],
                              BodyClose (Body resp)], Returned)
                        | None \<Rightarrow>
                            ([JsonMarshal de, HttpNewRequest ''POST'' url eventstr,
                              ClientDo request, ReadAll (Body resp),
                              BodyClose (Body resp)], Returned)))))"

section \<open>The handlers\<close>

text \<open>The type assertion \<open>obj.(*v1.Event)\<close> with its \<open>ok\<close> flag.\<close>

definition assertEventPtr :: "obj \<Rightarrow> Event option option" where
  "assertEventPtr x = (case x of EventPtr p \<Rightarrow> Some p | _ \<Rightarrow> None)"

text \<open>
  \<open>addEvent\<close>, \<open>updateEvent\<close> and \<open>deleteEvent\<close> (main.go, lines 171 to 214). The
  envelope is built before \<open>reportEvent\<close> is entered, and building it dereferences the
  pointer: on a nil \<open>*v1.Event\<close> that is a panic.
\<close>

definition addEvent :: "env \<Rightarrow> flagValues \<Rightarrow> obj \<Rightarrow> result" where
  "addEvent e fl x =
     (if x \<noteq> NilInterface then
        (case assertEventPtr x of
           None \<Rightarrow> ([], Returned)
         | Some None \<Rightarrow> ([], Panicked ''invalid memory address or nil pointer dereference'')
         | Some (Some event) \<Rightarrow>
             reportEvent e (domeosServer fl)
               \<lparr>K8sEvent = event, ClusterId = clusterId fl, ClusterApi = apiserver fl,
                Type = ''add''\<rparr>)
      else ([], Returned))"

definition updateEvent :: "env \<Rightarrow> flagValues \<Rightarrow> obj \<Rightarrow> obj \<Rightarrow> result" where
  "updateEvent e fl old cur =
     (if cur \<noteq> NilInterface then
        (case assertEventPtr cur of
           None \<Rightarrow> ([], Returned)
         | Some None \<Rightarrow> ([], Panicked ''invalid memory address or nil pointer dereference'')
         | Some (Some event) \<Rightarrow>
             reportEvent e (domeosServer fl)
               \<lparr>K8sEvent = event, ClusterId = clusterId fl, ClusterApi = apiserver fl,
                Type = ''update''\<rparr>)
      else ([], Returned))"

definition deleteEvent :: "env \<Rightarrow> flagValues \<Rightarrow> obj \<Rightarrow> result" where
  "deleteEvent e fl x =
     (if x \<noteq> NilInterface then
        (case assertEventPtr x of
           None \<Rightarrow> ([], Returned)
         | Some None \<Rightarrow> ([], Panicked ''invalid memory address or nil pointer dereference'')
         | Some (Some event) \<Rightarrow>
             reportEvent e (domeosServer fl)
               \<lparr>K8sEvent = event, ClusterId = clusterId fl, ClusterApi = apiserver fl,
                Type = ''delete''\<rparr>)
      else ([], Returned))"

section \<open>The informer and its handlers\<close>

text \<open>The constants of package time that \<open>resyncPeriod\<close> is built from, in nanoseconds.\<close>

definition Nanosecond :: Duration where "Nanosecond = 1"
definition Microsecond :: Duration where "Microsecond = 1000 * Nanosecond"
definition Millisecond :: Duration where "Millisecond = 1000 * Microsecond"
definition Second :: Duration where "Second = 1000 * Millisecond"
definition Minute :: Duration where "Minute = 60 * Second"

text \<open>The constant \<open>resyncPeriod\<close> (main.go, lines 39 to 41).\<close>

definition resyncPeriod :: Duration where
  "resyncPeriod = 5 * Minute"

text \<open>
  Modelled from the spec: \<open>cache.ResourceEventHandlerFuncs\<close> and the notifications it
  receives are declared in client-go, outside the repository. The spec's
  ChangeNotification is the tagged variant Added, Updated (old and new), Deleted; the
  dispatcher calls the handler registered for the notification's kind, and a kind with no
  registered handler is ignored. \<open>None\<close> below says that no handler was called.
\<close>

datatype ChangeNotification = Added obj | Updated obj obj | Deleted obj

record ResourceEventHandlerFuncs =
  AddFunc :: "(env \<Rightarrow> obj \<Rightarrow> result) option"
  UpdateFunc :: "(env \<Rightarrow> obj \<Rightarrow> obj \<Rightarrow> result) option"
  DeleteFunc :: "(env \<Rightarrow> obj \<Rightarrow> result) option"

definition OnAdd :: "ResourceEventHandlerFuncs \<Rightarrow> env \<Rightarrow> obj \<Rightarrow> result option" where
  "OnAdd r e x = (case AddFunc r of None \<Rightarrow> None | Some f \<Rightarrow> Some (f e x))"

definition OnUpdate :: "ResourceEventHandlerFuncs \<Rightarrow> env \<Rightarrow> obj \<Rightarrow> obj \<Rightarrow> result option" where
  "OnUpdate r e old cur = (case UpdateFunc r of None \<Rightarrow> None | Some f \<Rightarrow> Some (f e old cur))"

definition OnDelete :: "ResourceEventHandlerFuncs \<Rightarrow> env \<Rightarrow> obj \<Rightarrow> result option" where
  "OnDelete r e x = (case DeleteFunc r of None \<Rightarrow> None | Some f \<Rightarrow> Some (f e x))"

fun dispatch :: "ResourceEventHandlerFuncs \<Rightarrow> env \<Rightarrow> ChangeNotification \<Rightarrow> result option" where
  "dispatch r e (Added x) = OnAdd r e x"
| "dispatch r e (Updated old cur) = OnUpdate r e old cur"
| "dispatch r e (Deleted x) = OnDelete r e x"

text \<open>
  What \<open>cache.NewInformer\<close> is given (main.go, lines 259 to 266): the list-watch, the
  resync period and the handlers.
\<close>

record Informer =
  ListerWatcher :: ListWatch
  FullResyncPeriod :: Duration
  Handler :: ResourceEventHandlerFuncs

text \<open>
  \<open>initializeMetricCollection\<close> (main.go, lines 255 to 269): the informer it constructs
  and starts. The handlers read the flag variables when they run.
\<close>

definition initializeMetricCollection :: "flagValues \<Rightarrow> clientset \<Rightarrow> Informer" where
  "initializeMetricCollection fl kubeClient =
     \<lparr>ListerWatcher =
        \<lparr>Client = kubeClient, Resource = ''events'', ListNamespace = [], FieldSelector = []\<rparr>,
      FullResyncPeriod = resyncPeriod,
      Handler =
        \<lparr>AddFunc = Some (\<lambda>e. addEvent e fl),
         UpdateFunc = None,
         DeleteFunc = Some (\<lambda>e. deleteEvent e fl)\<rparr>\<rparr>"

text \<open>
  Modelled from the spec: the informer's loop is client-go code, outside the repository.
  The spec has it feed the dispatcher one notification at a time, each dispatch (and the
  delivery inside it) finishing before the next starts. \<open>world i\<close> is what the libraries
  answer during the \<open>i\<close>-th dispatch; a panic in a handler ends the run.
\<close>

fun deliverAll :: "ResourceEventHandlerFuncs \<Rightarrow> (nat \<Rightarrow> env) \<Rightarrow> nat \<Rightarrow> ChangeNotification list \<Rightarrow> result" where
  "deliverAll r world i [] = ([], Returned)"
| "deliverAll r world i (n # ns) =
     (case dispatch r (world i) n of
        None \<Rightarrow> deliverAll r world (Suc i) ns
      | Some (t, Returned) \<Rightarrow>
          (case deliverAll r world (Suc i) ns of (t', out) \<Rightarrow> (t @ t', out))
      | Some (t, out) \<Rightarrow> (t, out))"

section \<open>Startup\<close>

text \<open>The verbs \<open>%d\<close> of \<open>fmt.Sprintf\<close> and \<open>%v\<close> on a boolean.\<close>

function natDecimal :: "nat \<Rightarrow> string" where
  "natDecimal n =
     (if n < 10 then [''0123456789'' ! n]
      else natDecimal (n div 10) @ [''0123456789'' ! (n mod 10)])"
  by pat_completeness auto
termination
  by (relation "measure id") auto

definition fmt_d :: "int \<Rightarrow> string" where
  "fmt_d i = (if i < 0 then CHR ''-'' # natDecimal (nat (- i)) else natDecimal (nat i))"

definition fmt_bool :: "bool \<Rightarrow> string" where
  "fmt_bool b = (if b then ''true'' else ''false'')"

text \<open>
  The end of \<open>createKubeClient\<close> (main.go, lines 145 to 153), reached from both branches
  with the calls made so far.
\<close>

definition testCommunication :: "startup \<Rightarrow> call list \<Rightarrow> clientset \<Rightarrow> call list \<times> (error + clientset)" where
  "testCommunication s pre kubeClient =
     (case serverVersion s kubeClient of
        Inl err \<Rightarrow>
          (pre @ [LogPrintln [''testing communication with server''], ServerVersion kubeClient],
           Inl (''ERROR communicating with apiserver: '' @ err))
      | Inr v \<Rightarrow>
          (pre @ [LogPrintln [''testing communication with server''], ServerVersion kubeClient,
                  LogPrintf ''serverVersion: %v'' [v]],
           Inr kubeClient))"

text \<open>\<open>createKubeClient\<close> (main.go, lines 97 to 154).\<close>

definition createKubeClient :: "startup \<Rightarrow> flagValues \<Rightarrow> call list \<times> (error + clientset)" where
  "createKubeClient s fl =
     (if inCluster fl then
        (case inClusterConfig s of
           Inl err \<Rightarrow> ([LogPrintln [''Creating client''], InClusterConfig], Inl err)
         | Inr config0 \<Rightarrow>
             (let config = (if apiserver fl \<noteq> [] then config0\<lparr>Host := apiserver fl\<rparr> else config0);
                  tokenPresent = (0 < length (BearerToken config));
                  pre = [LogPrintln [''Creating client''], InClusterConfig,
                         LogPrintln [''service account token present: %v'', fmt_bool tokenPresent],
                         LogPrintln [''service host: %s'', Host config],
                         NewForConfig config]
              in case newForConfig s config of
                   Inl err \<Rightarrow> (pre, Inl err)
                 | Inr kubeClient \<Rightarrow> testCommunication s pre kubeClient))
      else
        (case defaultClientConfig s of
           Inl err \<Rightarrow> ([LogPrintln [''Creating client''], DefaultClientConfig], Inl err)
         | Inr config0 \<Rightarrow>
             (let config1 = config0\<lparr>Host := apiserver fl\<rparr>;
                  config = (if token fl \<noteq> []
                            then config1\<lparr>BearerToken := token fl, Insecure := True\<rparr>
                            else config1);
                  pre = [LogPrintln [''Creating client''], DefaultClientConfig, NewForConfig config]
              in case newForConfig s config of
                   Inl err \<Rightarrow> (pre, Inl err)
                 | Inr kubeClient \<Rightarrow> testCommunication s pre kubeClient)))"

text \<open>
  \<open>metricsServer\<close> (main.go, lines 156 to 166): \<open>log.Fatal\<close> runs only if the listener
  returns.
\<close>

definition metricsServer :: "startup \<Rightarrow> flagValues \<Rightarrow> result" where
  "metricsServer s fl =
     (let listenAddress = CHR '':'' # fmt_d (sint (port fl));
          pre = [LogPrintln [''Starting metrics server: %s'', listenAddress],
                 HandleFunc ''/'', ListenAndServe listenAddress]
      in case listenAndServe s listenAddress of
           None \<Rightarrow> (pre, Serving)
         | Some err \<Rightarrow> (pre @ [LogFatal [err]], Exited 1))"

text \<open>
  \<open>main\<close> (main.go, lines 63 to 95), from the answer of \<open>flags.Parse\<close>: its error, or
  the values of the flags.
\<close>

definition main :: "startup \<Rightarrow> error + flagValues \<Rightarrow> result" where
  "main s parsed =
     (case parsed of
        Inl err \<Rightarrow> ([LogFatal [''Error: %v'', err]], Exited 1)
      | Inr fl \<Rightarrow>
          if helpFlag fl then ([PrintUsage], Exited 0)
          else if apiserver fl = [] \<and> \<not> inCluster fl then
            ([LogFatal [''--apiserver not set and --in-cluster is false; apiserver must be set to a valid URL'']],
             Exited 1)
          else
            (let pre = [LogPrintln [''apiServer set to: %v'', apiserver fl],
                        LogPrintln [''token set to: %v'', token fl],
                        StartReaper]
             in case createKubeClient s fl of
                  (t, Inl err) \<Rightarrow>
                    (pre @ t @ [LogFatal [''Failed to create client: '', err]], Exited 1)
                | (t, Inr kubeClient) \<Rightarrow>
                    (let einf = initializeMetricCollection fl kubeClient;
                         started = [GoInformerRun (ListerWatcher einf) (FullResyncPeriod einf)]
                     in case metricsServer s fl of
                          (t', out) \<Rightarrow> (pre @ t @ started @ t', out))))"

section \<open>Reading a trace\<close>

text \<open>The requests handed to the HTTP client, in order: the POST attempts of a trace.\<close>

fun requestsSent :: "call list \<Rightarrow> Request list" where
  "requestsSent [] = []"
| "requestsSent (ClientDo r # cs) = r # requestsSent cs"
| "requestsSent (c # cs) = requestsSent cs"

text \<open>The member \<open>eventType\<close> of a JSON object.\<close>

definition eventTypeOf :: "json \<Rightarrow> json option" where
  "eventTypeOf j = (case j of JObject kvs \<Rightarrow> map_of kvs ''eventType'' | _ \<Rightarrow> None)"

text \<open>The calls that create or probe a source client, and those of steady-state operation.\<close>

fun isClientCreation :: "call \<Rightarrow> bool" where
  "isClientCreation InClusterConfig = True"
| "isClientCreation DefaultClientConfig = True"
| "isClientCreation (NewForConfig c) = True"
| "isClientCreation (ServerVersion k) = True"
| "isClientCreation c = False"

fun isSteadyState :: "call \<Rightarrow> bool" where
  "isSteadyState (GoInformerRun lw d) = True"
| "isSteadyState (HandleFunc p) = True"
| "isSteadyState (ListenAndServe a) = True"
| "isSteadyState c = False"

text \<open>
  Two answers of the HTTP client that differ at most in the status code of the response:
  the same error, or two responses with the same body.
\<close>

definition sameButStatus :: "error + Response \<Rightarrow> error + Response \<Rightarrow> bool" where
  "sameButStatus a b =
     (case a of
        Inl err \<Rightarrow> b = Inl err
      | Inr r \<Rightarrow> (case b of Inl err \<Rightarrow> False | Inr r' \<Rightarrow> Body r = Body r'))"

section \<open>Sample inputs\<close>

definition sampleEvent :: Event where
  "sampleEvent =
     \<lparr>Namespace = ''default'', Name = ''web-1.17a2b'', ResourceVersion = ''4211'',
      Payload = ''Started container web''\<rparr>"

definition sampleFlags :: flagValues where
  "sampleFlags =
     \<lparr>inCluster = False, apiserver = ''https://10.0.0.1:6443'', token = ''secret'',
      kubeconfig = ''./config'', helpFlag = False, port = 80, clusterId = 7,
      domeosServer = ''http://domeos.example/api/k8sevent/report''\<rparr>"

definition sampleEnvelope :: DomeosEvent where
  "sampleEnvelope =
     \<lparr>K8sEvent = sampleEvent, ClusterId = 7, ClusterApi = ''https://10.0.0.1:6443'',
      Type = ''add''\<rparr>"

text \<open>A collector that answers every request with the given status and an empty body.\<close>

definition answering :: "int \<Rightarrow> env" where
  "answering status =
     \<lparr>marshalEvent = (\<lambda>ev. Inr (JObject [(''message'', JString (Payload ev))])),
      urlParse = (\<lambda>u. Inr u),
      clientDo = (\<lambda>r. Inr \<lparr>StatusCode = status, Body = \<lparr>content = [], readError = None\<rparr>\<rparr>)\<rparr>"

text \<open>A collector that cannot be reached, an address that does not parse, a payload that
  does not serialise.\<close>

definition unreachable :: env where
  "unreachable = (answering 200)\<lparr>clientDo := (\<lambda>r. Inl ''connection refused'')\<rparr>"

definition badAddress :: env where
  "badAddress = (answering 200)\<lparr>urlParse := (\<lambda>u. Inl ''missing protocol scheme'')\<rparr>"

definition unserialisable :: env where
  "unserialisable = (answering 200)\<lparr>marshalEvent := (\<lambda>ev. Inl ''unsupported value'')\<rparr>"

text \<open>A cluster whose apiserver answers and a listener that serves.\<close>

definition sampleStartup :: startup where
  "sampleStartup =
     \<lparr>inClusterConfig = Inl ''not running in a cluster'',
      defaultClientConfig = Inr \<lparr>Host = [], BearerToken = [], Insecure = False\<rparr>,
      newForConfig = (\<lambda>c. Inr (Clientset c)),
      serverVersion = (\<lambda>k. Inr ''v1.11.0''),
      listenAndServe = (\<lambda>a. None)\<rparr>"

section \<open>Facts about the sink and the handlers\<close>

lemma reportEvent_returns: "snd (reportEvent e url de) = Returned"
  by (simp add: reportEvent_def Let_def split: sum.splits option.splits)

lemma reportEvent_first_call: "\<exists>t. fst (reportEvent e url de) = JsonMarshal de # t"
  by (simp add: reportEvent_def Let_def split: sum.splits option.splits)

lemma reportEvent_marshals: "JsonMarshal d \<in> set (fst (reportEvent e url de)) \<Longrightarrow> d = de"
  by (auto simp add: reportEvent_def Let_def split: sum.splits option.splits)

lemma reportEvent_body_type:
  "r \<in> set (requestsSent (fst (reportEvent e url de))) \<Longrightarrow>
     eventTypeOf (ReqBody r) = Some (JString (Type de))"
  by (auto simp add: reportEvent_def Let_def json_Marshal_def http_NewRequest_def Header_Set_def
      eventTypeOf_def split: sum.splits option.splits)

lemma requestsSent_append: "requestsSent (a @ b) = requestsSent a @ requestsSent b"
  by (induction a rule: requestsSent.induct) auto

lemma addEvent_marshals: "JsonMarshal d \<in> set (fst (addEvent e fl x)) \<Longrightarrow> Type d = ''add''"
  by (auto simp add: addEvent_def split: if_splits option.splits dest: reportEvent_marshals)

lemma deleteEvent_marshals:
  "JsonMarshal d \<in> set (fst (deleteEvent e fl x)) \<Longrightarrow> Type d = ''delete''"
  by (auto simp add: deleteEvent_def split: if_splits option.splits dest: reportEvent_marshals)

lemma addEvent_requests:
  "r \<in> set (requestsSent (fst (addEvent e fl x))) \<Longrightarrow>
     eventTypeOf (ReqBody r) = Some (JString ''add'')"
  by (auto simp add: addEvent_def split: if_splits option.splits dest: reportEvent_body_type)

lemma deleteEvent_requests:
  "r \<in> set (requestsSent (fst (deleteEvent e fl x))) \<Longrightarrow>
     eventTypeOf (ReqBody r) = Some (JString ''delete'')"
  by (auto simp add: deleteEvent_def split: if_splits option.splits dest: reportEvent_body_type)

text \<open>
  The handler that exists but is not registered would deliver the third event type.
\<close>

lemma updateEvent_marshals:
  "fst (updateEvent e fl old (EventPtr (Some ev))) =
     JsonMarshal \<lparr>K8sEvent = ev, ClusterId = clusterId fl, ClusterApi = apiserver fl,
                  Type = ''update''\<rparr> # tl (fst (updateEvent e fl old (EventPtr (Some ev))))"
  using reportEvent_first_call
    [of e "domeosServer fl"
        "\<lparr>K8sEvent = ev, ClusterId = clusterId fl, ClusterApi = apiserver fl, Type = ''update''\<rparr>"]
  by (auto simp add: updateEvent_def assertEventPtr_def)

text \<open>
  A nil pointer of type \<open>*v1.Event\<close> is not the nil interface and passes the type
  assertion; building the envelope then dereferences it.
\<close>

lemma handlers_nil_pointer:
  "addEvent e fl (EventPtr None) = ([], Panicked ''invalid memory address or nil pointer dereference'')
   \<and> deleteEvent e fl (EventPtr None) = ([], Panicked ''invalid memory address or nil pointer dereference'')"
  by (simp add: addEvent_def deleteEvent_def assertEventPtr_def)

lemma dispatch_marshals:
  assumes "dispatch (Handler (initializeMetricCollection fl k)) e n = Some res"
    and "JsonMarshal d \<in> set (fst res)"
  shows "Type d = ''add'' \<or> Type d = ''delete''"
proof (cases n)
  case (Added x)
  with assms have "JsonMarshal d \<in> set (fst (addEvent e fl x))"
    by (auto simp add: initializeMetricCollection_def OnAdd_def)
  then show ?thesis by (simp add: addEvent_marshals)
next
  case (Updated old cur)
  with assms show ?thesis
    by (simp add: initializeMetricCollection_def OnUpdate_def)
next
  case (Deleted x)
  with assms have "JsonMarshal d \<in> set (fst (deleteEvent e fl x))"
    by (auto simp add: initializeMetricCollection_def OnDelete_def)
  then show ?thesis by (simp add: deleteEvent_marshals)
qed

lemma dispatch_requests:
  assumes "dispatch (Handler (initializeMetricCollection fl k)) e n = Some res"
    and "r \<in> set (requestsSent (fst res))"
  shows "eventTypeOf (ReqBody r) = Some (JString ''add'') \<or>
         eventTypeOf (ReqBody r) = Some (JString ''delete'')"
proof (cases n)
  case (Added x)
  with assms have "r \<in> set (requestsSent (fst (addEvent e fl x)))"
    by (auto simp add: initializeMetricCollection_def OnAdd_def)
  then show ?thesis by (simp add: addEvent_requests)
next
  case (Updated old cur)
  with assms show ?thesis
    by (simp add: initializeMetricCollection_def OnUpdate_def)
next
  case (Deleted x)
  with assms have "r \<in> set (requestsSent (fst (deleteEvent e fl x)))"
    by (auto simp add: initializeMetricCollection_def OnDelete_def)
  then show ?thesis by (simp add: deleteEvent_requests)
qed

lemma deliverAll_marshals:
  "JsonMarshal d \<in> set (fst (deliverAll (Handler (initializeMetricCollection fl k)) world i ns)) \<Longrightarrow>
   Type d = ''add'' \<or> Type d = ''delete''"
proof (induction ns arbitrary: i)
  case Nil
  then show ?case by simp
next
  case (Cons n ns)
  show ?case
  proof (cases "dispatch (Handler (initializeMetricCollection fl k)) (world i) n")
    case None
    with Cons show ?thesis by simp
  next
    case (Some res)
    obtain t out where res: "res = (t, out)" by (cases res)
    show ?thesis
    proof (cases "JsonMarshal d \<in> set t")
      case True
      with Some res show ?thesis by (auto dest: dispatch_marshals [where d = d])
    next
      case False
      with Cons.prems Some res
      have "JsonMarshal d \<in> set (fst (deliverAll (Handler (initializeMetricCollection fl k)) world (Suc i) ns))"
        by (cases out) (auto split: prod.splits)
      then show ?thesis by (rule Cons.IH)
    qed
  qed
qed

lemma deliverAll_requests:
  "r \<in> set (requestsSent (fst (deliverAll (Handler (initializeMetricCollection fl k)) world i ns))) \<Longrightarrow>
   eventTypeOf (ReqBody r) = Some (JString ''add'') \<or>
   eventTypeOf (ReqBody r) = Some (JString ''delete'')"
proof (induction ns arbitrary: i)
  case Nil
  then show ?case by simp
next
  case (Cons n ns)
  show ?case
  proof (cases "dispatch (Handler (initializeMetricCollection fl k)) (world i) n")
    case None
    with Cons show ?thesis by simp
  next
    case (Some res)
    obtain t out where res: "res = (t, out)" by (cases res)
    show ?thesis
    proof (cases "r \<in> set (requestsSent t)")
      case True
      with Some res show ?thesis by (auto dest: dispatch_requests [where r = r])
    next
      case False
      with Cons.prems Some res
      have "r \<in> set (requestsSent (fst (deliverAll (Handler (initializeMetricCollection fl k)) world (Suc i) ns)))"
        by (cases out) (auto split: prod.splits simp add: requestsSent_append)
      then show ?thesis by (rule Cons.IH)
    qed
  qed
qed

section \<open>The claims\<close>

text \<open>
  Claim C2. The handlers that \<open>initializeMetricCollection\<close> registers are called as
  follows: an Updated notification calls no handler at all, and a run that consists of it
  makes no library call, so nothing is delivered; an Added notification is one call of
  \<open>addEvent\<close> and a Deleted notification is one call of \<open>deleteEvent\<close>, each on the
  notification's object.
\<close>

theorem dispatch_ignores_updated:
  "dispatch (Handler (initializeMetricCollection fl k)) e (Updated old cur) = None
   \<and> deliverAll (Handler (initializeMetricCollection fl k)) world i [Updated old cur] = ([], Returned)
   \<and> dispatch (Handler (initializeMetricCollection fl k)) e (Added x) = Some (addEvent e fl x)
   \<and> dispatch (Handler (initializeMetricCollection fl k)) e (Deleted x) = Some (deleteEvent e fl x)"
  by (simp add: initializeMetricCollection_def OnAdd_def OnUpdate_def OnDelete_def)

text \<open>
  Claim C3, as stated, asks for an HTTP POST for every envelope. \<open>reportEvent\<close> returns
  before the client is called when the destination address does not parse: with
  \<open>--domeosServer=:8080\<close> (an address net/url rejects: missing protocol scheme) no
  request is handed to the client.
\<close>

theorem reportEvent_no_post_counterexample:
  "requestsSent (fst (reportEvent badAddress '':8080'' sampleEnvelope)) = []"
  by (simp add: reportEvent_def json_Marshal_def http_NewRequest_def badAddress_def
      answering_def sampleEnvelope_def)

text \<open>
  Claim C3, amended. Whenever the envelope serialises and the destination address
  parses, \<open>reportEvent\<close> hands exactly one request to the HTTP client: a POST to that
  address, the one header the program sets being Content-Type with the single value
  \<open>application/json;charset=UTF-8\<close>, and the body being the JSON object with exactly the
  members \<open>k8sEvent\<close> (the serialised payload), \<open>clusterId\<close> (a number),
  \<open>clusterApi\<close> (a string) and \<open>eventType\<close> (a string), in this order.
\<close>

theorem reportEvent_post_format:
  "marshalEvent e (K8sEvent de) = Inr payload \<Longrightarrow> urlParse e url = Inr u \<Longrightarrow>
     requestsSent (fst (reportEvent e url de)) =
       [\<lparr>Method = ''POST'', URL = u,
         Header = [(''Content-Type'', [''application/json;charset=UTF-8''])],
         ReqBody = JObject [(''k8sEvent'', payload),
                            (''clusterId'', JNumber (sint (ClusterId de))),
                            (''clusterApi'', JString (ClusterApi de)),
                            (''eventType'', JString (Type de))]\<rparr>]"
  by (simp add: reportEvent_def Let_def json_Marshal_def http_NewRequest_def Header_Set_def
      split: sum.splits option.splits)

theorem reportEvent_post_format_witness:
  "marshalEvent (answering 500) (K8sEvent sampleEnvelope)
     = Inr (JObject [(''message'', JString ''Started container web'')])
   \<and> urlParse (answering 500) ''http://domeos.example/api/k8sevent/report''
     = Inr ''http://domeos.example/api/k8sevent/report''
   \<and> requestsSent (fst (reportEvent (answering 500) ''http://domeos.example/api/k8sevent/report''
        sampleEnvelope)) =
       [\<lparr>Method = ''POST'', URL = ''http://domeos.example/api/k8sevent/report'',
         Header = [(''Content-Type'', [''application/json;charset=UTF-8''])],
         ReqBody = JObject [(''k8sEvent'', JObject [(''message'', JString ''Started container web'')]),
                            (''clusterId'', JNumber 7),
                            (''clusterApi'', JString ''https://10.0.0.1:6443''),
                            (''eventType'', JString ''add'')]\<rparr>]"
proof -
  have m: "marshalEvent (answering 500) (K8sEvent sampleEnvelope)
             = Inr (JObject [(''message'', JString ''Started container web'')])"
    by (simp add: answering_def sampleEnvelope_def sampleEvent_def)
  have u: "urlParse (answering 500) ''http://domeos.example/api/k8sevent/report''
             = Inr ''http://domeos.example/api/k8sevent/report''"
    by (simp add: answering_def)
  from reportEvent_post_format [OF m u] m u show ?thesis
    by (simp add: sampleEnvelope_def)
qed

text \<open>
  Claim C4. Every call of \<open>reportEvent\<close> hands at most one request to the HTTP client
  and returns normally (it has no result through which an error could reach the caller).
  When request construction fails, the trace is the serialisation, the failed
  construction and one log line: no request is sent. When the client reports a network
  failure for the one request, the trace ends with one log line after that request:
  there is no second attempt.
\<close>

theorem reportEvent_single_attempt:
  "length (requestsSent (fst (reportEvent e url de))) \<le> 1
   \<and> snd (reportEvent e url de) = Returned
   \<and> (\<forall>body err.
         json_Marshal e de = Inr body \<and> http_NewRequest e ''POST'' url body = Inl err \<longrightarrow>
         fst (reportEvent e url de) =
           [JsonMarshal de, HttpNewRequest ''POST'' url body,
            LogPrintln [''create request error: %v'', err]])
   \<and> (\<forall>req err.
         requestsSent (fst (reportEvent e url de)) = [req] \<and> clientDo e req = Inl err \<longrightarrow>
         fst (reportEvent e url de) =
           [JsonMarshal de, HttpNewRequest ''POST'' url (ReqBody req), ClientDo req,
            LogPrintln [''get response error, %v'', err]])"
  by (auto simp add: reportEvent_def Let_def http_NewRequest_def Header_Set_def
      split: sum.splits option.splits)

theorem reportEvent_single_attempt_witness:
  "fst (reportEvent badAddress '':8080'' sampleEnvelope) =
     [JsonMarshal sampleEnvelope,
      HttpNewRequest ''POST'' '':8080''
        (JObject [(''k8sEvent'', JObject [(''message'', JString ''Started container web'')]),
                  (''clusterId'', JNumber 7),
                  (''clusterApi'', JString ''https://10.0.0.1:6443''),
                  (''eventType'', JString ''add'')]),
      LogPrintln [''create request error: %v'', ''missing protocol scheme'']]
   \<and> fst (reportEvent unreachable ''http://domeos.example'' sampleEnvelope) =
     [JsonMarshal sampleEnvelope,
      HttpNewRequest ''POST'' ''http://domeos.example''
        (JObject [(''k8sEvent'', JObject [(''message'', JString ''Started container web'')]),
                  (''clusterId'', JNumber 7),
                  (''clusterApi'', JString ''https://10.0.0.1:6443''),
                  (''eventType'', JString ''add'')]),
      ClientDo \<lparr>Method = ''POST'', URL = ''http://domeos.example'',
                Header = [(''Content-Type'', [''application/json;charset=UTF-8''])],
                ReqBody =
                  JObject [(''k8sEvent'', JObject [(''message'', JString ''Started container web'')]),
                           (''clusterId'', JNumber 7),
                           (''clusterApi'', JString ''https://10.0.0.1:6443''),
                           (''eventType'', JString ''add'')]\<rparr>,
      LogPrintln [''get response error, %v'', ''connection refused'']]"
proof -
  let ?body = "JObject [(''k8sEvent'', JObject [(''message'', JString ''Started container web'')]),
                        (''clusterId'', JNumber 7),
                        (''clusterApi'', JString ''https://10.0.0.1:6443''),
                        (''eventType'', JString ''add'')]"
  let ?req = "\<lparr>Method = ''POST'', URL = ''http://domeos.example'',
               Header = [(''Content-Type'', [''application/json;charset=UTF-8''])],
               ReqBody = ?body\<rparr>"
  have a: "json_Marshal badAddress sampleEnvelope = Inr ?body
           \<and> http_NewRequest badAddress ''POST'' '':8080'' ?body = Inl ''missing protocol scheme''"
    by (simp add: json_Marshal_def http_NewRequest_def badAddress_def answering_def
        sampleEnvelope_def sampleEvent_def)
  have b: "requestsSent (fst (reportEvent unreachable ''http://domeos.example'' sampleEnvelope)) = [?req]
           \<and> clientDo unreachable ?req = Inl ''connection refused''"
    by (simp add: reportEvent_def json_Marshal_def http_NewRequest_def Header_Set_def
        unreachable_def answering_def sampleEnvelope_def sampleEvent_def)
  from reportEvent_single_attempt [of badAddress "'':8080''" sampleEnvelope] a
  have "fst (reportEvent badAddress '':8080'' sampleEnvelope) =
          [JsonMarshal sampleEnvelope, HttpNewRequest ''POST'' '':8080'' ?body,
           LogPrintln [''create request error: %v'', ''missing protocol scheme'']]"
    by blast
  moreover
  from reportEvent_single_attempt [of unreachable "''http://domeos.example''" sampleEnvelope] b
  have "fst (reportEvent unreachable ''http://domeos.example'' sampleEnvelope) =
          [JsonMarshal sampleEnvelope, HttpNewRequest ''POST'' ''http://domeos.example'' (ReqBody ?req),
           ClientDo ?req, LogPrintln [''get response error, %v'', ''connection refused'']]"
    by blast
  ultimately show ?thesis by simp
qed

text \<open>
  Claim C5. When the JSON serialisation of the envelope fails, \<open>reportEvent\<close> makes two
  library calls only, the failed serialisation and one log line, and returns: no request
  is constructed, none is sent, and nothing is tried again.
\<close>

theorem reportEvent_marshal_failure:
  "marshalEvent e (K8sEvent de) = Inl err \<Longrightarrow>
     reportEvent e url de =
       ([JsonMarshal de, LogPrintln [''marshal DomeosEvent error: '', err]], Returned)"
  by (simp add: reportEvent_def json_Marshal_def)

theorem reportEvent_marshal_failure_witness:
  "marshalEvent unserialisable (K8sEvent sampleEnvelope) = Inl ''unsupported value''
   \<and> reportEvent unserialisable ''http://domeos.example'' sampleEnvelope =
       ([JsonMarshal sampleEnvelope,
         LogPrintln [''marshal DomeosEvent error: '', ''unsupported value'']], Returned)"
proof -
  have m: "marshalEvent unserialisable (K8sEvent sampleEnvelope) = Inl ''unsupported value''"
    by (simp add: unserialisable_def answering_def)
  from reportEvent_marshal_failure [OF m] m show ?thesis by simp
qed

text \<open>
  Claim C6. On an object that is the nil interface, or that is not a \<open>*v1.Event\<close>, both
  \<open>addEvent\<close> and \<open>deleteEvent\<close> return with an empty trace: \<open>reportEvent\<close> is not
  called (every call of it leaves its serialisation call in the trace), and the handlers
  have no result through which an error could surface. The nil in question is the nil
  interface, which is what the handlers test.
\<close>

theorem handlers_discard_malformed:
  "x = NilInterface \<or> assertEventPtr x = None \<Longrightarrow>
     addEvent e fl x = ([], Returned) \<and> deleteEvent e fl x = ([], Returned)"
  by (auto simp add: addEvent_def deleteEvent_def)

theorem handlers_discard_malformed_witness:
  "assertEventPtr (OtherValue ''cache.DeletedFinalStateUnknown'') = None
   \<and> addEvent (answering 200) sampleFlags NilInterface = ([], Returned)
   \<and> deleteEvent (answering 200) sampleFlags NilInterface = ([], Returned)
   \<and> addEvent (answering 200) sampleFlags (OtherValue ''cache.DeletedFinalStateUnknown'')
       = ([], Returned)
   \<and> deleteEvent (answering 200) sampleFlags (OtherValue ''cache.DeletedFinalStateUnknown'')
       = ([], Returned)"
proof -
  have other: "assertEventPtr (OtherValue ''cache.DeletedFinalStateUnknown'') = None"
    by (simp add: assertEventPtr_def)
  from handlers_discard_malformed [of NilInterface "answering 200" sampleFlags]
    handlers_discard_malformed
      [of "OtherValue ''cache.DeletedFinalStateUnknown''" "answering 200" sampleFlags]
    other
  show ?thesis by simp
qed

text \<open>
  Claim C7. Two runs of \<open>reportEvent\<close> on the same envelope and address, in which the
  libraries answer alike except for the status code of the response, make the same
  library calls with the same arguments, log lines included, and both return normally.
\<close>

theorem reportEvent_ignores_status:
  assumes m: "marshalEvent e1 = marshalEvent e2"
    and u: "urlParse e1 = urlParse e2"
    and d: "\<forall>req. sameButStatus (clientDo e1 req) (clientDo e2 req)"
  shows "reportEvent e1 url de = reportEvent e2 url de \<and> snd (reportEvent e1 url de) = Returned"
proof -
  have jm: "json_Marshal e1 de = json_Marshal e2 de"
    by (simp add: json_Marshal_def m)
  have nr: "http_NewRequest e1 m' url b = http_NewRequest e2 m' url b" for m' b
    by (simp add: http_NewRequest_def u)
  have same: "reportEvent e1 url de = reportEvent e2 url de"
  proof (cases "json_Marshal e2 de")
    case (Inl err)
    then show ?thesis by (simp add: reportEvent_def jm)
  next
    case body: (Inr body)
    show ?thesis
    proof (cases "http_NewRequest e2 ''POST'' url body")
      case (Inl err)
      with body show ?thesis by (simp add: reportEvent_def jm nr)
    next
      case (Inr request0)
      from d have "sameButStatus
          (clientDo e1 (Header_Set ''Content-Type'' ''application/json;charset=UTF-8'' request0))
          (clientDo e2 (Header_Set ''Content-Type'' ''application/json;charset=UTF-8'' request0))"
        by simp
      with body Inr show ?thesis
        by (auto simp add: reportEvent_def jm nr Let_def sameButStatus_def
            split: sum.splits option.splits)
    qed
  qed
  then show ?thesis by (simp add: reportEvent_returns)
qed

theorem reportEvent_ignores_status_witness:
  "(\<forall>req. sameButStatus (clientDo (answering 200) req) (clientDo (answering 500) req))
   \<and> reportEvent (answering 200) ''http://domeos.example'' sampleEnvelope
       = reportEvent (answering 500) ''http://domeos.example'' sampleEnvelope
   \<and> snd (reportEvent (answering 200) ''http://domeos.example'' sampleEnvelope) = Returned"
proof -
  have m: "marshalEvent (answering 200) = marshalEvent (answering 500)"
    by (simp add: answering_def)
  have u: "urlParse (answering 200) = urlParse (answering 500)"
    by (simp add: answering_def)
  have d: "\<forall>req. sameButStatus (clientDo (answering 200) req) (clientDo (answering 500) req)"
    by (simp add: answering_def sameButStatus_def)
  from reportEvent_ignores_status [OF m u d, of "''http://domeos.example''" sampleEnvelope] d
  show ?thesis by blast
qed

text \<open>
  Claim C8, as stated, has the process end with a diagnostic whenever the apiserver
  address is empty and the in-cluster flag is false. \<open>main\<close> serves a request for the
  help text first (lines 74 to 77): with \<open>--in-cluster=false --help\<close> it prints the
  usage text and exits with status 0, and the check of lines 79 to 81 is never reached.
\<close>

theorem main_help_first_counterexample:
  "main sampleStartup (Inr (sampleFlags\<lparr>apiserver := [], helpFlag := True\<rparr>))
     = ([PrintUsage], Exited 0)"
  by (simp add: main_def sampleFlags_def)

text \<open>
  Claim C8, amended. When the flags are parsed, the help text is not requested, the
  apiserver address is empty and the in-cluster flag is false, \<open>main\<close> writes the
  diagnostic about \<open>--apiserver\<close> and the process exits with status 1. Nothing else
  happens: no call that creates or probes a source client is made, and none of
  steady-state operation (the informer, the listener).
\<close>

theorem main_requires_apiserver:
  "\<not> helpFlag fl \<Longrightarrow> apiserver fl = [] \<Longrightarrow> \<not> inCluster fl \<Longrightarrow>
     main s (Inr fl) =
       ([LogFatal [''--apiserver not set and --in-cluster is false; apiserver must be set to a valid URL'']],
        Exited 1)
     \<and> filter isClientCreation (fst (main s (Inr fl))) = []
     \<and> filter isSteadyState (fst (main s (Inr fl))) = []"
  by (simp add: main_def)

theorem main_requires_apiserver_witness:
  "\<not> helpFlag (sampleFlags\<lparr>apiserver := []\<rparr>)
   \<and> apiserver (sampleFlags\<lparr>apiserver := []\<rparr>) = []
   \<and> \<not> inCluster (sampleFlags\<lparr>apiserver := []\<rparr>)
   \<and> main sampleStartup (Inr (sampleFlags\<lparr>apiserver := []\<rparr>)) =
       ([LogFatal [''--apiserver not set and --in-cluster is false; apiserver must be set to a valid URL'']],
        Exited 1)
   \<and> filter isClientCreation (fst (main sampleStartup (Inr (sampleFlags\<lparr>apiserver := []\<rparr>)))) = []"
proof -
  have h: "\<not> helpFlag (sampleFlags\<lparr>apiserver := []\<rparr>)"
    by (simp add: sampleFlags_def)
  have a: "apiserver (sampleFlags\<lparr>apiserver := []\<rparr>) = []"
    by simp
  have i: "\<not> inCluster (sampleFlags\<lparr>apiserver := []\<rparr>)"
    by (simp add: sampleFlags_def)
  from main_requires_apiserver [OF h a i, of sampleStartup] h a i show ?thesis
    by simp
qed

text \<open>
  Claim C9. Whatever the flags and the client, the informer that
  \<open>initializeMetricCollection\<close> constructs has the resync period \<open>5 * time.Minute\<close>,
  which is 300 000 000 000 nanoseconds: a constant, which nothing the watch stream does
  can change.
\<close>

theorem informer_resync_five_minutes:
  "FullResyncPeriod (initializeMetricCollection fl k) = 5 * Minute
   \<and> sint (FullResyncPeriod (initializeMetricCollection fl k)) = 5 * 60 * 1000000000"
  by (simp add: initializeMetricCollection_def resyncPeriod_def Minute_def Second_def
      Millisecond_def Microsecond_def Nanosecond_def)

text \<open>
  Claim C10. The handlers registered by \<open>initializeMetricCollection\<close> have no update
  function. In every run of the informer, over any sequence of notifications and whatever
  the libraries answer, every envelope given to \<open>reportEvent\<close> (each is serialised
  first) has the type \<open>add\<close> or \<open>delete\<close>, and so has the member \<open>eventType\<close> of every
  request body handed to the HTTP client.
\<close>

theorem never_delivers_update:
  "UpdateFunc (Handler (initializeMetricCollection fl k)) = None
   \<and> (\<forall>d. JsonMarshal d \<in> set (fst (deliverAll (Handler (initializeMetricCollection fl k)) world i ns))
          \<longrightarrow> Type d = ''add'' \<or> Type d = ''delete'')
   \<and> (\<forall>r \<in> set (requestsSent (fst (deliverAll (Handler (initializeMetricCollection fl k)) world i ns))).
          eventTypeOf (ReqBody r) = Some (JString ''add'') \<or>
          eventTypeOf (ReqBody r) = Some (JString ''delete''))"
proof (intro conjI allI impI ballI)
  show "UpdateFunc (Handler (initializeMetricCollection fl k)) = None"
    by (simp add: initializeMetricCollection_def)
next
  fix d
  assume "JsonMarshal d \<in> set (fst (deliverAll (Handler (initializeMetricCollection fl k)) world i ns))"
  then show "Type d = ''add'' \<or> Type d = ''delete''"
    by (rule deliverAll_marshals)
next
  fix r
  assume "r \<in> set (requestsSent (fst (deliverAll (Handler (initializeMetricCollection fl k)) world i ns)))"
  then show "eventTypeOf (ReqBody r) = Some (JString ''add'') \<or>
             eventTypeOf (ReqBody r) = Some (JString ''delete'')"
    by (rule deliverAll_requests)
qed

theorem never_delivers_update_witness:
  "JsonMarshal (sampleEnvelope\<lparr>Type := ''delete''\<rparr>)
     \<in> set (fst (deliverAll (Handler (initializeMetricCollection sampleFlags (Clientset \<lparr>Host = [], BearerToken = [], Insecure = False\<rparr>)))
                  (\<lambda>i. answering 200) 0
                  [Added (EventPtr (Some sampleEvent)),
                   Updated (EventPtr (Some sampleEvent)) (EventPtr (Some sampleEvent)),
                   Deleted (EventPtr (Some sampleEvent))]))
   \<and> (Type (sampleEnvelope\<lparr>Type := ''delete''\<rparr>) = ''add''
      \<or> Type (sampleEnvelope\<lparr>Type := ''delete''\<rparr>) = ''delete'')
   \<and> map Type (concat (map (\<lambda>c. case c of JsonMarshal d \<Rightarrow> [d] | _ \<Rightarrow> [])
        (fst (deliverAll (Handler (initializeMetricCollection sampleFlags (Clientset \<lparr>Host = [], BearerToken = [], Insecure = False\<rparr>)))
                  (\<lambda>i. answering 200) 0
                  [Added (EventPtr (Some sampleEvent)),
                   Updated (EventPtr (Some sampleEvent)) (EventPtr (Some sampleEvent)),
                   Deleted (EventPtr (Some sampleEvent))])))) = [''add'', ''delete'']"
proof -
  let ?run = "fst (deliverAll (Handler (initializeMetricCollection sampleFlags (Clientset \<lparr>Host = [], BearerToken = [], Insecure = False\<rparr>)))
                  (\<lambda>i. answering 200) 0
                  [Added (EventPtr (Some sampleEvent)),
                   Updated (EventPtr (Some sampleEvent)) (EventPtr (Some sampleEvent)),
                   Deleted (EventPtr (Some sampleEvent))])"
  have mem: "JsonMarshal (sampleEnvelope\<lparr>Type := ''delete''\<rparr>) \<in> set ?run"
    by (simp add: initializeMetricCollection_def OnAdd_def OnUpdate_def OnDelete_def
        addEvent_def deleteEvent_def assertEventPtr_def reportEvent_def json_Marshal_def
        http_NewRequest_def Header_Set_def Let_def ioutil_ReadAll_def answering_def
        sampleEnvelope_def sampleFlags_def)
  have types: "map Type (concat (map (\<lambda>c. case c of JsonMarshal d \<Rightarrow> [d] | _ \<Rightarrow> []) ?run))
                 = [''add'', ''delete'']"
    by (simp add: initializeMetricCollection_def OnAdd_def OnUpdate_def OnDelete_def
        addEvent_def deleteEvent_def assertEventPtr_def reportEvent_def json_Marshal_def
        http_NewRequest_def Header_Set_def Let_def ioutil_ReadAll_def answering_def
        sampleEnvelope_def sampleFlags_def)
  from never_delivers_update
    [of sampleFlags "Clientset \<lparr>Host = [], BearerToken = [], Insecure = False\<rparr>"
        "\<lambda>i. answering 200" 0
        "[Added (EventPtr (Some sampleEvent)),
          Updated (EventPtr (Some sampleEvent)) (EventPtr (Some sampleEvent)),
          Deleted (EventPtr (Some sampleEvent))]"]
    mem
  have "Type (sampleEnvelope\<lparr>Type := ''delete''\<rparr>) = ''add''
        \<or> Type (sampleEnvelope\<lparr>Type := ''delete''\<rparr>) = ''delete''"
    by blast
  with mem types show ?thesis by blast
qed

end
